theory Spec2Isabelle
  imports Complex_Main
begin

section \<open>Data model\<close>

text \<open>
  The application is a set of request handlers (\<open>src/app.py\<close>) over three tables of a
  relational store. A row fetched with \<open>DictCursor\<close> is a record; a table is the list of
  its rows. Every exception the handlers can raise is a value of \<open>error\<close>; an exception
  no handler catches ends the request (HTTP 500) and is the \<open>Inl\<close> of a response.
\<close>

datatype error =
    TypeError
  | OverflowError
  | ValueError
  | BadRequestKeyError
  | DataError
  | FileNotFoundError
  | RequestException
  | AttributeError
  | KeyError
  | IndexError
  | ProviderError string

text \<open>\<open>str(e)\<close>, as the flashed messages interpolate it.\<close>

fun error_text :: "error \<Rightarrow> string" where
  "error_text TypeError = ''NoneType object is not subscriptable''"
| "error_text OverflowError = ''cannot convert float infinity to integer''"
| "error_text ValueError = ''cannot convert float NaN to integer''"
| "error_text BadRequestKeyError = ''400 Bad Request''"
| "error_text DataError = ''invalid input syntax for type numeric''"
| "error_text FileNotFoundError = ''No such file or directory''"
| "error_text RequestException = ''request failed''"
| "error_text AttributeError = ''object has no attribute get''"
| "error_text KeyError = ''-1''"
| "error_text IndexError = ''list index out of range''"
| "error_text (ProviderError m) = m"

text \<open>
  Modelled from the spec: the table declarations are not part of the source. The columns
  are the ones the queries name; quantities and prices (\<open>amount_af\<close>, \<open>price_per_af\<close>,
  \<open>annual_allocation\<close>) are exact decimal numbers, taken as rationals; the connected
  payment account and the allocation are nullable; no constraint other than the ones the
  handlers rely on is assumed, the offers table being an append-only ledger.
\<close>

record user =
  u_id :: int
  name :: string
  email :: string
  password_hash :: string
  phone_number :: string
  u_water_district :: string
  stripe_account_id :: "string option"
  annual_allocation :: "rat option"

record listing =
  l_id :: int
  seller_id :: int
  listing_type :: string
  lease_duration :: string
  water_district :: string
  amount_af :: rat
  price_per_af :: rat
  description :: string
  status :: string
  created_at :: int

record offer =
  o_listing_id :: int
  o_buyer_id :: int
  o_status :: string

record db =
  users :: "user list"
  listings :: "listing list"
  offers :: "offer list"

text \<open>The Flask session: the login state the handlers read.\<close>

record session =
  s_user_id :: "int option"
  s_user_name :: "string option"
  s_stripe_account_id :: "string option"

text \<open>\<open>cur.fetchone()\<close>: the first row of the result, or \<open>None\<close>.\<close>

definition fetchone :: "('a \<Rightarrow> bool) \<Rightarrow> 'a list \<Rightarrow> 'a option" where
  "fetchone p rows = List.find p rows"

text \<open>SQL \<open>SUM\<close>: \<open>NULL\<close> over no rows.\<close>

definition sql_sum :: "rat list \<Rightarrow> rat option" where
  "sql_sum xs = (if xs = [] then None else Some (sum_list xs))"

text \<open>Python truthiness of a nullable string: \<open>None\<close> and the empty string are falsy.\<close>

definition truthy :: "string option \<Rightarrow> bool" where
  "truthy s = (case s of None \<Rightarrow> False | Some t \<Rightarrow> t \<noteq> [])"

section \<open>Binary64 arithmetic\<close>

text \<open>
  \<open>purchase\<close> computes the price with Python floats. A finite double is the rational it
  denotes; \<open>to_double\<close> rounds a rational to the nearest double, ties to even, with
  gradual underflow below \<open>2^-1022\<close> and overflow to infinity once the rounded value
  reaches \<open>2^1024\<close>, that is, once its binary logarithm reaches 1024.
\<close>

datatype double = Fin rat | Infinite bool | NaN

text \<open>Python's \<open>int.bit_length\<close> on a non-negative integer.\<close>

function bit_length :: "int \<Rightarrow> int" where
  "bit_length n = (if n \<le> 0 then 0 else 1 + bit_length (n div 2))"
  by pat_completeness auto
termination
  by (relation "measure nat") auto

definition pow2 :: "int \<Rightarrow> rat" where
  "pow2 e = (if 0 \<le> e then 2 ^ nat e else 1 / 2 ^ nat (- e))"

definition round_half_even :: "rat \<Rightarrow> int" where
  "round_half_even x =
     (let f = \<lfloor>x\<rfloor>; d = x - of_int f
      in if d < 1 / 2 then f else if 1 / 2 < d then f + 1
         else if even f then f else f + 1)"

text \<open>\<open>\<lfloor>log\<^sub>2 x\<rfloor>\<close> for a positive rational \<open>x\<close>.\<close>

definition ilog2 :: "rat \<Rightarrow> int" where
  "ilog2 x =
     (let (p, q) = quotient_of x;
          k = bit_length p - bit_length q
      in if pow2 k \<le> x then k else k - 1)"

definition round_pos :: "rat \<Rightarrow> double" where
  "round_pos x =
     (let e = max (ilog2 x - 52) (- 1074);
          r = of_int (round_half_even (x / pow2 e)) * pow2 e
      in if 1024 \<le> ilog2 r then Infinite False else Fin r)"

definition dneg :: "double \<Rightarrow> double" where
  "dneg d = (case d of Fin r \<Rightarrow> Fin (- r) | Infinite s \<Rightarrow> Infinite (\<not> s) | NaN \<Rightarrow> NaN)"

definition to_double :: "rat \<Rightarrow> double" where
  "to_double x =
     (if x = 0 then Fin 0 else if 0 < x then round_pos x else dneg (round_pos (- x)))"

text \<open>\<open>a * b\<close> on floats: the exact product, rounded; the IEEE rules for infinities.\<close>

fun dmul :: "double \<Rightarrow> double \<Rightarrow> double" where
  "dmul (Fin a) (Fin b) = to_double (a * b)"
| "dmul NaN _ = NaN"
| "dmul _ NaN = NaN"
| "dmul (Infinite s) (Infinite t) = Infinite (s \<noteq> t)"
| "dmul (Infinite s) (Fin b) = (if b = 0 then NaN else Infinite (s \<noteq> (b < 0)))"
| "dmul (Fin a) (Infinite t) = (if a = 0 then NaN else Infinite ((a < 0) \<noteq> t))"

text \<open>\<open>int(x)\<close> on a float: truncation towards zero; infinities and NaN raise.\<close>

definition trunc :: "rat \<Rightarrow> int" where
  "trunc r = (if 0 \<le> r then \<lfloor>r\<rfloor> else \<lceil>r\<rceil>)"

fun int_of_double :: "double \<Rightarrow> error + int" where
  "int_of_double (Fin r) = Inr (trunc r)"
| "int_of_double (Infinite _) = Inl OverflowError"
| "int_of_double NaN = Inl ValueError"

text \<open>An int operand of a float product is converted first; too large an int raises.\<close>

definition double_of_int :: "int \<Rightarrow> error + double" where
  "double_of_int n =
     (case to_double (of_int n) of Fin r \<Rightarrow> Inr (Fin r) | _ \<Rightarrow> Inl OverflowError)"

section \<open>External providers and effects\<close>

text \<open>
  Text the handlers build with f-strings is kept as a list of fragments: how a stored
  decimal, a float or the current date prints is not what the handlers decide.
\<close>

datatype fragment = Str string | Dec rat | Num int | Flt double | Today

type_synonym text_line = "fragment list"

record checkout_params =
  product_name :: text_line
  unit_amount :: int
  application_fee_amount :: int
  destination :: string
  success_url :: text_line
  cancel_url :: string

record signature_payload =
  recipients :: "(string \<times> string \<times> string) list"
  template_id :: string
  request_name :: text_line

datatype signature_call = Upload string string | Request signature_payload

record mail =
  to_email :: string
  subject :: string
  html_content :: text_line

text \<open>
  What \<open>response.json()\<close> can return: any JSON value, as the Python object it becomes
  (\<open>JNull\<close> is \<open>None\<close>; a float literal out of range, or \<open>Infinity\<close>, parses to an
  infinity; an object is the list of its members, a later member of the same key winning).
\<close>

datatype json =
    JNull
  | JBool bool
  | JInt int
  | JFloat double
  | JStr string
  | JArr "json list"
  | JObj "(string \<times> json) list"

record lake_info =
  li_date :: json
  li_value :: int

text \<open>
  The outside world a request sees. \<open>account_retrieve\<close> is \<open>stripe.Account.retrieve\<close>
  read at \<open>charges_enabled\<close>; \<open>checkout_create\<close> is \<open>stripe.checkout.Session.create\<close>
  read at \<open>url\<close>; \<open>cdec_get\<close> is the GET of the telemetry series with
  \<open>raise_for_status\<close> and \<open>json\<close>; \<open>signwell_upload\<close> and \<open>signwell_request\<close> are the two
  \<open>requests.post\<close> calls, read at the status code and the template id; \<open>read_file\<close> is
  \<open>open(path, 'rb')\<close>; \<open>parse_numeric\<close> is the store's cast of a form string to a numeric
  column. An \<open>Inl\<close> is the exception the call raises.
\<close>

record env =
  SIGNWELL_API_KEY :: "string option"
  account_retrieve :: "string \<Rightarrow> error + bool"
  checkout_create :: "checkout_params \<Rightarrow> error + string"
  cdec_get :: "error + json"
  read_file :: "string \<Rightarrow> string option"
  signwell_upload :: "string \<Rightarrow> string \<Rightarrow> error + (int \<times> string)"
  signwell_request :: "signature_payload \<Rightarrow> error + int"
  parse_numeric :: "string \<Rightarrow> rat option"

record dashboard_ctx =
  my_listings :: "listing list"
  current_user :: user
  current_balance :: rat
  stripe_account_is_active :: bool
  success_lake_info :: "lake_info option"

datatype response =
    Redirect string
  | Render_dashboard dashboard_ctx
  | Render_edit_listing listing

text \<open>
  What a request leaves behind: the response (\<open>Inl\<close>: an exception nobody caught), the
  flashed messages with their category, the committed store, and the calls made to the
  payment platform's checkout API, to the signature provider and to the mail provider.
\<close>

record result =
  response :: "error + response"
  flashes :: "(string \<times> string) list"
  store :: db
  checkouts :: "checkout_params list"
  signatures :: "signature_call list"
  mails :: "mail list"

definition reply :: "db \<Rightarrow> (string \<times> string) list \<Rightarrow> error + response \<Rightarrow> result" where
  "reply d fl r =
     \<lparr>response = r, flashes = fl, store = d, checkouts = [], signatures = [], mails = []\<rparr>"

section \<open>Helper functions\<close>

text \<open>
  \<open>create_lease_agreement\<close> lays the agreement out on a fresh \<open>FPDF\<close> object, cell by
  cell, and returns \<open>None\<close>: the object is local and is never written out. Subscripting
  a missing party row raises; the layout calls of the library are taken to succeed.
\<close>

definition create_lease_agreement ::
  "listing \<Rightarrow> user option \<Rightarrow> user option \<Rightarrow> error + string option" where
  "create_lease_agreement listing seller buyer =
     (case seller of None \<Rightarrow> Inl TypeError
      | Some s \<Rightarrow>
     (case buyer of None \<Rightarrow> Inl TypeError
      | Some b \<Rightarrow>
        let total_price = dmul (to_double (price_per_af listing)) (to_double (amount_af listing));
            pdf = [[Str ''Temporary Water Lease Agreement''],
                   [Str ''This agreement is made on '', Today,
                    Str '' between the following parties:''],
                   [Str ''SELLER: '', Str (name s), Str '' ('', Str (email s), Str '')''],
                   [Str ''BUYER: '', Str (name b), Str '' ('', Str (email b), Str '')''],
                   [Str ''The Seller agrees to lease and the Buyer agrees to receive the following water allocation for the duration of: '',
                    Str (lease_duration listing), Str ''.''],
                   [Str ''Water District:''], [Str '' '', Str (water_district listing)],
                   [Str ''Amount:''], [Str '' '', Dec (amount_af listing), Str '' Acre-Feet''],
                   [Str ''Total Price:''], [Str '' $'', Flt total_price],
                   [Str ''This agreement serves as a formal request to the specified water district to make the necessary ledger adjustments for this temporary transfer.''],
                   [Str ''Seller Signature:''], [Str ''Buyer Signature:''],
                   [Str ''_________________________''], [Str ''_________________________'']]
        in Inr None))"

definition basename :: "string \<Rightarrow> string" where
  "basename p = rev (takeWhile (\<lambda>c. c \<noteq> CHR ''/'') (rev p))"

text \<open>The result of \<open>send_for_signature\<close>, with the calls it made to the provider.\<close>

definition send_for_signature ::
  "env \<Rightarrow> string option \<Rightarrow> user option \<Rightarrow> user option
   \<Rightarrow> (error + bool) \<times> signature_call list" where
  "send_for_signature env pdf_path seller buyer =
     (if \<not> truthy pdf_path then (Inr False, [])
      else if \<not> truthy (SIGNWELL_API_KEY env) then (Inr False, [])
      else
        (case pdf_path of None \<Rightarrow> (Inr False, [])
         | Some path \<Rightarrow>
        (case read_file env path of None \<Rightarrow> (Inl FileNotFoundError, [])
         | Some content \<Rightarrow>
        (let up = Upload (basename path) content in
         case signwell_upload env (basename path) content of
           Inl e \<Rightarrow> (Inl e, [up])
         | Inr (status_code, tid) \<Rightarrow>
             if status_code \<noteq> 201 then (Inr False, [up])
             else
               (case seller of None \<Rightarrow> (Inl TypeError, [up])
                | Some s \<Rightarrow>
               (case buyer of None \<Rightarrow> (Inl TypeError, [up])
                | Some b \<Rightarrow>
                  let payload =
                        \<lparr>recipients = [(email s, name s, ''Seller''), (email b, name b, ''Buyer'')],
                         template_id = tid,
                         request_name = [Str ''Water Lease Agreement - '', Str (name s),
                                         Str '' & '', Str (name b)]\<rparr>
                  in (case signwell_request env payload of
                        Inl e \<Rightarrow> (Inl e, [up, Request payload])
                      | Inr code \<Rightarrow> (Inr (code = 201), [up, Request payload]))))))))"

text \<open>Truthiness of a parsed JSON value (\<open>if data:\<close>).\<close>

fun json_truthy :: "json \<Rightarrow> bool" where
  "json_truthy JNull = False"
| "json_truthy (JBool b) = b"
| "json_truthy (JInt i) = (i \<noteq> 0)"
| "json_truthy (JFloat d) = (d \<noteq> Fin 0)"
| "json_truthy (JStr t) = (t \<noteq> [])"
| "json_truthy (JArr xs) = (xs \<noteq> [])"
| "json_truthy (JObj kvs) = (kvs \<noteq> [])"

text \<open>
  \<open>data[-1]\<close>: the last item of a list, the last character of a string; a dict has no
  key \<open>-1\<close>; the other values cannot be subscripted.
\<close>

fun json_last :: "json \<Rightarrow> error + json" where
  "json_last (JArr xs) = (if xs = [] then Inl IndexError else Inr (last xs))"
| "json_last (JStr t) = (if t = [] then Inl IndexError else Inr (JStr [last t]))"
| "json_last (JObj kvs) = Inl KeyError"
| "json_last _ = Inl TypeError"

text \<open>\<open>d.get(key)\<close> on a dict: \<open>None\<close> when the key is missing.\<close>

definition dict_get :: "(string \<times> json) list \<Rightarrow> string \<Rightarrow> json" where
  "dict_get kvs k = (case map_of (rev kvs) k of None \<Rightarrow> JNull | Some v \<Rightarrow> v)"

text \<open>\<open>latest_reading.get(key)\<close>: only a dict has the method.\<close>

fun json_get :: "json \<Rightarrow> string \<Rightarrow> error + json" where
  "json_get (JObj kvs) k = Inr (dict_get kvs k)"
| "json_get _ k = Inl AttributeError"

text \<open>
  \<open>value is not None and value > -9999\<close> and then \<open>int(value)\<close>, by the kind of value:
  \<open>Some\<close> the integer when the test passes, \<open>None\<close> when it fails. A bool compares and
  converts as 0 or 1; a NaN compares false; the positive infinity passes the test and
  \<open>int\<close> raises on it; a string, a list or a dict cannot be compared with an int.
\<close>

fun checked_int :: "json \<Rightarrow> error + int option" where
  "checked_int JNull = Inr None"
| "checked_int (JBool b) = Inr (Some (if b then 1 else 0))"
| "checked_int (JInt i) = Inr (if - 9999 < i then Some i else None)"
| "checked_int (JFloat (Fin q)) = Inr (if - 9999 < q then Some (trunc q) else None)"
| "checked_int (JFloat (Infinite negative)) = (if negative then Inr None else Inl OverflowError)"
| "checked_int (JFloat NaN) = Inr None"
| "checked_int (JStr t) = Inl TypeError"
| "checked_int (JArr xs) = Inl TypeError"
| "checked_int (JObj kvs) = Inl TypeError"

text \<open>
  \<open>get_success_lake_data\<close>: only \<open>RequestException\<close> (timeouts, connection and HTTP
  errors) is caught, any other exception leaves the function; the last item of the series
  is the one looked at.
\<close>

definition get_success_lake_data :: "env \<Rightarrow> error + lake_info option" where
  "get_success_lake_data env =
     (case cdec_get env of
        Inl e \<Rightarrow> (if e = RequestException then Inr None else Inl e)
      | Inr data \<Rightarrow>
          if json_truthy data then
            (case json_last data of
               Inl e \<Rightarrow> Inl e
             | Inr latest_reading \<Rightarrow>
            (case json_get latest_reading ''value'' of
               Inl e \<Rightarrow> Inl e
             | Inr v \<Rightarrow>
            (case checked_int v of
               Inl e \<Rightarrow> Inl e
             | Inr None \<Rightarrow> Inr None
             | Inr (Some n) \<Rightarrow>
            (case json_get latest_reading ''date'' of
               Inl e \<Rightarrow> Inl e
             | Inr dt \<Rightarrow> Inr (Some \<lparr>li_date = dt, li_value = n\<rparr>)))))
          else Inr None)"

text \<open>\<open>send_email\<close>: the send is attempted and its failure only printed.\<close>

definition send_email :: "string \<Rightarrow> string \<Rightarrow> text_line \<Rightarrow> mail" where
  "send_email to_addr subj html = \<lparr>to_email = to_addr, subject = subj, html_content = html\<rparr>"

section \<open>Route handlers\<close>

subsection \<open>dashboard\<close>

text \<open>The two \<open>SUM\<close> queries of \<open>dashboard\<close>, with \<open>NULL\<close> read as 0.\<close>

definition total_sold :: "db \<Rightarrow> int \<Rightarrow> rat" where
  "total_sold d user_id =
     (case sql_sum (map amount_af
             (filter (\<lambda>l. seller_id l = user_id \<and> status l = ''sold'') (listings d))) of
        None \<Rightarrow> 0 | Some t \<Rightarrow> t)"

definition total_purchased :: "db \<Rightarrow> int \<Rightarrow> rat" where
  "total_purchased d user_id =
     (case sql_sum (map amount_af
             (filter (\<lambda>l. status l = ''sold'' \<and>
                           list_ex (\<lambda>r. o_listing_id r = l_id l \<and> o_buyer_id r = user_id \<and>
                                        o_status r = ''accepted'') (offers d))
                     (listings d))) of
        None \<Rightarrow> 0 | Some t \<Rightarrow> t)"

text \<open>
  \<open>ORDER BY created_at DESC\<close> is the reversed stable sort; the activation flag is read
  live from the payment platform, a failure of the call counting as inactive.
\<close>

definition dashboard :: "env \<Rightarrow> session \<Rightarrow> db \<Rightarrow> result" where
  "dashboard env sess d =
     (case s_user_id sess of
        None \<Rightarrow> reply d [] (Inr (Redirect ''/#signin''))
      | Some user_id \<Rightarrow>
          let user_row = fetchone (\<lambda>u. u_id u = user_id) (users d);
              mine = rev (sort_key created_at (filter (\<lambda>l. seller_id l = user_id) (listings d)));
              active =
                (case user_row of None \<Rightarrow> False
                 | Some u \<Rightarrow>
                     (case stripe_account_id u of None \<Rightarrow> False
                      | Some acct \<Rightarrow>
                          if acct = [] then False
                          else (case account_retrieve env acct of
                                  Inl e \<Rightarrow> False
                                | Inr charges_enabled \<Rightarrow> charges_enabled)))
          in (case user_row of
                None \<Rightarrow> reply d [] (Inl TypeError)
              | Some u \<Rightarrow>
                  let balance =
                        (case annual_allocation u of None \<Rightarrow> 0 | Some a \<Rightarrow> a)
                          - total_sold d user_id + total_purchased d user_id
                  in (case get_success_lake_data env of
                        Inl e \<Rightarrow> reply d [] (Inl e)
                      | Inr info \<Rightarrow>
                          reply d []
                            (Inr (Render_dashboard
                               \<lparr>my_listings = mine, current_user = u, current_balance = balance,
                                stripe_account_is_active = active,
                                success_lake_info = info\<rparr>)))))"

subsection \<open>purchase\<close>

text \<open>
  \<open>total_price = int(float(price_per_af) * float(amount_af) * 100)\<close> and
  \<open>application_fee = int(total_price * 0.035)\<close>, in binary64.
\<close>

definition price_computation :: "listing \<Rightarrow> error + int \<times> int" where
  "price_computation listing =
     (case int_of_double
             (dmul (dmul (to_double (price_per_af listing)) (to_double (amount_af listing)))
                   (to_double 100)) of
        Inl e \<Rightarrow> Inl e
      | Inr total_price \<Rightarrow>
          (case double_of_int total_price of
             Inl e \<Rightarrow> Inl e
           | Inr t \<Rightarrow>
               (case int_of_double (dmul t (to_double (35 / 1000))) of
                  Inl e \<Rightarrow> Inl e
                | Inr application_fee \<Rightarrow> Inr (total_price, application_fee))))"

definition purchase :: "env \<Rightarrow> session \<Rightarrow> db \<Rightarrow> int \<Rightarrow> result" where
  "purchase env sess d listing_id =
     (case s_user_id sess of
        None \<Rightarrow>
          reply d [(''You must be logged in to purchase.'', ''error'')] (Inr (Redirect ''/#signin''))
      | Some buyer_id \<Rightarrow>
          let listing = fetchone (\<lambda>l. l_id l = listing_id) (listings d) in
          if (case listing of None \<Rightarrow> False | Some l \<Rightarrow> seller_id l = buyer_id)
          then reply d [(''You cannot purchase your own listing.'', ''error'')]
                 (Inr (Redirect ''/marketplace''))
          else
            (case listing of
               None \<Rightarrow> reply d [] (Inl TypeError)
             | Some l \<Rightarrow>
            (case fetchone (\<lambda>u. u_id u = seller_id l) (users d) of
               None \<Rightarrow> reply d [] (Inl TypeError)
             | Some seller \<Rightarrow>
            (case stripe_account_id seller of
               None \<Rightarrow>
                 reply d [(''This seller has not yet set up to receive payments.'', ''error'')]
                   (Inr (Redirect ''/marketplace''))
             | Some acct \<Rightarrow>
                 if acct = [] then
                   reply d [(''This seller has not yet set up to receive payments.'', ''error'')]
                     (Inr (Redirect ''/marketplace''))
                 else
            (case account_retrieve env acct of
               Inl e \<Rightarrow>
                 reply d [(''There was an issue verifying the seller's account: '' @ error_text e,
                           ''error'')]
                   (Inr (Redirect ''/marketplace''))
             | Inr charges_enabled \<Rightarrow>
                 if \<not> charges_enabled then
                   reply d [(''This seller has not completed their Stripe setup and cannot receive payments yet. Please try again later.'',
                             ''error'')]
                     (Inr (Redirect ''/marketplace''))
                 else
            (case price_computation l of
               Inl e \<Rightarrow>
                 reply d [(''Could not process payment: '' @ error_text e, ''error'')]
                   (Inr (Redirect ''/marketplace''))
             | Inr (total_price, application_fee) \<Rightarrow>
                 let params =
                       \<lparr>product_name = [Dec (amount_af l), Str '' AF of water from '',
                                        Str (name seller)],
                        unit_amount = total_price,
                        application_fee_amount = application_fee,
                        destination = acct,
                        success_url = [Str ''https://www.agriwatermarketplace.com/purchase_success/'',
                                       Num listing_id, Str ''/'', Num buyer_id],
                        cancel_url = ''https://www.agriwatermarketplace.com/cancel''\<rparr>
                 in (case checkout_create env params of
                       Inl e \<Rightarrow>
                         (reply d [(''Could not process payment: '' @ error_text e, ''error'')]
                            (Inr (Redirect ''/marketplace'')))\<lparr>checkouts := [params]\<rparr>
                     | Inr url \<Rightarrow>
                         (reply d [] (Inr (Redirect url)))\<lparr>checkouts := [params]\<rparr>)))))))"

subsection \<open>purchase_success\<close>

text \<open>The \<open>UPDATE\<close> and the \<open>INSERT\<close> that \<open>purchase_success\<close> commits.\<close>

definition settle :: "db \<Rightarrow> int \<Rightarrow> int \<Rightarrow> db" where
  "settle d listing_id buyer_id =
     d\<lparr>listings := map (\<lambda>l. if l_id l = listing_id then l\<lparr>status := ''sold''\<rparr> else l) (listings d),
       offers := offers d @
         [\<lparr>o_listing_id = listing_id, o_buyer_id = buyer_id, o_status = ''accepted''\<rparr>]\<rparr>"

text \<open>
  The two notification mails at the end of \<open>purchase_success\<close>: each is guarded by its
  recipient's row and reads the other party's name.
\<close>

definition notify :: "listing \<Rightarrow> user option \<Rightarrow> user option \<Rightarrow> error + mail list" where
  "notify listing seller buyer =
     (case (case seller of
              None \<Rightarrow> Inr []
            | Some s \<Rightarrow>
                (case buyer of
                   None \<Rightarrow> Inl TypeError
                 | Some b \<Rightarrow>
                     Inr [send_email (email s) ''You've been paid!''
                            [Str ''Congratulations, your listing for '', Dec (amount_af listing),
                             Str '' AF was purchased by '', Str (name b),
                             Str ''. The lease agreement has been sent to both parties for signature.'']])) of
        Inl e \<Rightarrow> Inl e
      | Inr first \<Rightarrow>
          (case buyer of
             None \<Rightarrow> Inr first
           | Some b \<Rightarrow>
               (case seller of
                  None \<Rightarrow> Inl TypeError
                | Some s \<Rightarrow>
                    Inr (first @
                      [send_email (email b) ''Purchase Successful!''
                         [Str ''Congratulations, you have successfully purchased the water listing from '',
                          Str (name s),
                          Str ''. A lease agreement has been sent to you for signature.'']]))))"

definition purchase_success :: "env \<Rightarrow> db \<Rightarrow> int \<Rightarrow> int \<Rightarrow> result" where
  "purchase_success env d listing_id buyer_id =
     (case fetchone (\<lambda>l. l_id l = listing_id) (listings d) of
        None \<Rightarrow> reply d [] (Inl TypeError)
      | Some listing \<Rightarrow>
          let seller = fetchone (\<lambda>u. u_id u = seller_id listing) (users d);
              buyer = fetchone (\<lambda>u. u_id u = buyer_id) (users d);
              d' = settle d listing_id buyer_id
          in (case create_lease_agreement listing seller buyer of
                Inl e \<Rightarrow> reply d' [] (Inl e)
              | Inr pdf_filename \<Rightarrow>
                  (case send_for_signature env pdf_filename seller buyer of
                     (Inl e, sigs) \<Rightarrow> (reply d' [] (Inl e))\<lparr>signatures := sigs\<rparr>
                   | (Inr sent, sigs) \<Rightarrow>
                       (case notify listing seller buyer of
                          Inl e \<Rightarrow> (reply d' [] (Inl e))\<lparr>signatures := sigs\<rparr>
                        | Inr ms \<Rightarrow>
                            (reply d'
                               [(''Purchase successful! The lease agreement has been sent to both parties for signature.'',
                                 ''success'')]
                               (Inr (Redirect ''/marketplace'')))
                            \<lparr>signatures := sigs, mails := ms\<rparr>))))"

subsection \<open>edit_listing and delete_listing\<close>

datatype http_method = GET | POST

text \<open>
  A missing form field ends the request with a 400; a quantity or a price the store cannot
  cast ends it with an unhandled \<open>DataError\<close>. The \<open>UPDATE\<close> is keyed on the id alone.
\<close>

definition edit_listing ::
  "env \<Rightarrow> session \<Rightarrow> db \<Rightarrow> int \<Rightarrow> http_method \<Rightarrow> (string \<rightharpoonup> string) \<Rightarrow> result" where
  "edit_listing env sess d listing_id method form =
     (case s_user_id sess of
        None \<Rightarrow> reply d [] (Inr (Redirect ''/#signin''))
      | Some user_id \<Rightarrow>
     (case fetchone (\<lambda>l. l_id l = listing_id \<and> seller_id l = user_id) (listings d) of
        None \<Rightarrow>
          reply d [(''Listing not found or you do not have permission to edit it.'', ''error'')]
            (Inr (Redirect ''/dashboard''))
      | Some listing \<Rightarrow>
          if method = POST then
            (case form ''lease_duration'' of None \<Rightarrow> reply d [] (Inl BadRequestKeyError)
             | Some duration \<Rightarrow>
            (case form ''water_district'' of None \<Rightarrow> reply d [] (Inl BadRequestKeyError)
             | Some district \<Rightarrow>
            (case form ''amount_af'' of None \<Rightarrow> reply d [] (Inl BadRequestKeyError)
             | Some amount \<Rightarrow>
            (case form ''price_per_af'' of None \<Rightarrow> reply d [] (Inl BadRequestKeyError)
             | Some price \<Rightarrow>
               let descr = (case form ''description'' of None \<Rightarrow> [] | Some t \<Rightarrow> t) in
            (case parse_numeric env amount of None \<Rightarrow> reply d [] (Inl DataError)
             | Some a \<Rightarrow>
            (case parse_numeric env price of None \<Rightarrow> reply d [] (Inl DataError)
             | Some p \<Rightarrow>
               reply
                 (d\<lparr>listings :=
                      map (\<lambda>l. if l_id l = listing_id
                                then l\<lparr>lease_duration := duration, water_district := district,
                                       amount_af := a, price_per_af := p, description := descr\<rparr>
                                else l) (listings d)\<rparr>)
                 [(''Your listing has been updated successfully!'', ''success'')]
                 (Inr (Redirect ''/dashboard''))))))))
          else reply d [] (Inr (Render_edit_listing listing))))"

text \<open>\<open>DELETE ... WHERE id = %s AND seller_id = %s\<close>, then the same message in every case.\<close>

definition delete_listing :: "session \<Rightarrow> db \<Rightarrow> int \<Rightarrow> result" where
  "delete_listing sess d listing_id =
     (case s_user_id sess of
        None \<Rightarrow> reply d [] (Inr (Redirect ''/#signin''))
      | Some user_id \<Rightarrow>
          reply
            (d\<lparr>listings :=
                 filter (\<lambda>l. \<not> (l_id l = listing_id \<and> seller_id l = user_id)) (listings d)\<rparr>)
            [(''Your listing has been deleted.'', ''success'')]
            (Inr (Redirect ''/dashboard'')))"

section \<open>Observations and the balance as the specification words it\<close>

definition reported_balance :: "result \<Rightarrow> rat option" where
  "reported_balance r =
     (case response r of
        Inr (Render_dashboard c) \<Rightarrow> Some (current_balance c)
      | _ \<Rightarrow> None)"

definition allocation_of :: "user \<Rightarrow> rat" where
  "allocation_of u = (case annual_allocation u of None \<Rightarrow> 0 | Some a \<Rightarrow> a)"

definition sold_listings :: "db \<Rightarrow> int \<Rightarrow> listing list" where
  "sold_listings d uid = filter (\<lambda>l. seller_id l = uid \<and> status l = ''sold'') (listings d)"

definition purchased_listings :: "db \<Rightarrow> int \<Rightarrow> listing list" where
  "purchased_listings d uid =
     filter (\<lambda>l. status l = ''sold'' \<and>
                 list_ex (\<lambda>r. o_listing_id r = l_id l \<and> o_buyer_id r = uid \<and>
                             o_status r = ''accepted'') (offers d))
            (listings d)"

text \<open>
  The specification's formula: allocation minus total quantity sold minus total quantity
  of the listings the user purchased.
\<close>

definition spec_effective_balance :: "db \<Rightarrow> user \<Rightarrow> rat" where
  "spec_effective_balance d u =
     allocation_of u - sum_list (map amount_af (sold_listings d (u_id u)))
                     - sum_list (map amount_af (purchased_listings d (u_id u)))"

definition accepted_rows :: "db \<Rightarrow> int \<Rightarrow> offer list" where
  "accepted_rows d lid =
     filter (\<lambda>r. o_listing_id r = lid \<and> o_status r = ''accepted'') (offers d)"

text \<open>
  A seller's payment account is activated when an account id is linked and the platform,
  asked now, reports the charge capability.
\<close>

definition activated :: "env \<Rightarrow> user \<Rightarrow> bool" where
  "activated env u =
     (case stripe_account_id u of
        None \<Rightarrow> False
      | Some acct \<Rightarrow> acct \<noteq> [] \<and> account_retrieve env acct = Inr True)"

text \<open>
  The telemetry fetch as the specification words it, on a series of dated readings whose
  value is an integer or missing: the sentinel and missing values are filtered out and
  the latest reading that is left is returned, or nothing when none is left.
\<close>

definition spec_latest_valid_reading :: "(string \<times> int option) list \<Rightarrow> (string \<times> int) option" where
  "spec_latest_valid_reading rs =
     (case rev (filter (\<lambda>r. snd r \<noteq> None \<and> snd r \<noteq> Some (- 9999)) rs) of
        [] \<Rightarrow> None
      | r # _ \<Rightarrow> (case snd r of None \<Rightarrow> None | Some v \<Rightarrow> Some (fst r, v)))"

text \<open>The JSON item of such a reading, as the telemetry provider sends it.\<close>

definition reading_json :: "string \<times> int option \<Rightarrow> json" where
  "reading_json r =
     JObj [(''date'', JStr (fst r)),
           (''value'', (case snd r of None \<Rightarrow> JNull | Some v \<Rightarrow> JInt v))]"

text \<open>The settlement callback invoked twice in a row for the same listing and buyer.\<close>

definition purchase_success_twice :: "env \<Rightarrow> db \<Rightarrow> int \<Rightarrow> int \<Rightarrow> result" where
  "purchase_success_twice env d listing_id buyer_id =
     purchase_success env (store (purchase_success env d listing_id buyer_id)) listing_id buyer_id"

section \<open>Sample data\<close>

definition alice :: user where
  "alice = \<lparr>u_id = 1, name = ''Alice'', email = ''alice@example.com'', password_hash = ''h1'',
            phone_number = ''555-0001'', u_water_district = ''Tulare'',
            stripe_account_id = Some ''acct_alice'', annual_allocation = Some 100\<rparr>"

definition bob :: user where
  "bob = \<lparr>u_id = 2, name = ''Bob'', email = ''bob@example.com'', password_hash = ''h2'',
          phone_number = ''555-0002'', u_water_district = ''Tulare'',
          stripe_account_id = Some ''acct_bob'', annual_allocation = None\<rparr>"

definition carol :: user where
  "carol = \<lparr>u_id = 3, name = ''Carol'', email = ''carol@example.com'', password_hash = ''h3'',
            phone_number = ''555-0003'', u_water_district = ''Kern'',
            stripe_account_id = None, annual_allocation = Some 40\<rparr>"

definition lease :: "int \<Rightarrow> int \<Rightarrow> rat \<Rightarrow> rat \<Rightarrow> string \<Rightarrow> listing" where
  "lease i s a p st =
     \<lparr>l_id = i, seller_id = s, listing_type = ''Lease'', lease_duration = ''1 year'',
      water_district = ''Tulare'', amount_af = a, price_per_af = p, description = [],
      status = st, created_at = i\<rparr>"

definition sample_db :: db where
  "sample_db =
     \<lparr>users = [alice, bob, carol],
      listings = [lease 10 1 30 100 ''sold'', lease 11 2 10 80 ''sold'',
                  lease 12 1 (5 / 2) 100 ''active'', lease 13 3 4 50 ''active''],
      offers = [\<lparr>o_listing_id = 10, o_buyer_id = 2, o_status = ''accepted''\<rparr>,
                \<lparr>o_listing_id = 11, o_buyer_id = 1, o_status = ''accepted''\<rparr>]\<rparr>"

definition sample_series :: "(string \<times> int option) list" where
  "sample_series = [(''2024-5-1 00:00'', Some 61250), (''2024-5-2 00:00'', Some (- 9999))]"

definition sample_env :: env where
  "sample_env =
     \<lparr>SIGNWELL_API_KEY = Some ''key'',
      account_retrieve = (\<lambda>a. if a = ''acct_alice'' then Inr True else Inr False),
      checkout_create = (\<lambda>p. Inr ''https://checkout.example/pay''),
      cdec_get = Inr (JArr (map reading_json sample_series)),
      read_file = (\<lambda>p. None),
      signwell_upload = (\<lambda>f c. Inr (201, ''tpl'')),
      signwell_request = (\<lambda>p. Inr 201),
      parse_numeric = (\<lambda>t. None)\<rparr>"

definition logged_in :: "user \<Rightarrow> session" where
  "logged_in u =
     \<lparr>s_user_id = Some (u_id u), s_user_name = Some (name u),
      s_stripe_account_id = stripe_account_id u\<rparr>"

section \<open>Properties\<close>

lemmas sample_defs =
  sample_db_def sample_env_def alice_def bob_def carol_def lease_def logged_in_def

lemma sample_telemetry: "get_success_lake_data sample_env = Inr None"
  by (simp add: sample_env_def sample_series_def reading_json_def get_success_lake_data_def
      dict_get_def)

subsection \<open>The dashboard balance\<close>

text \<open>
  C1 (as the code has it). For a logged-in user whose row exists, the balance the
  dashboard reports is the annual allocation (0 when null) minus the total quantity of the
  user's sold listings PLUS the total quantity of the sold listings that have an accepted
  offer row naming the user as buyer.
\<close>

theorem dashboard_balance_formula:
  assumes "s_user_id sess = Some uid"
    and "fetchone (\<lambda>u. u_id u = uid) (users d) = Some u"
    and "get_success_lake_data env = Inr info"
  shows "reported_balance (dashboard env sess d) =
           Some (allocation_of u - sum_list (map amount_af (sold_listings d uid))
                                 + sum_list (map amount_af (purchased_listings d uid)))"
  using assms
  by (simp add: dashboard_def reported_balance_def reply_def Let_def total_sold_def
      total_purchased_def sql_sum_def allocation_of_def sold_listings_def purchased_listings_def)

theorem dashboard_balance_formula_witness:
  "s_user_id (logged_in alice) = Some 1
   \<and> fetchone (\<lambda>u. u_id u = 1) (users sample_db) = Some alice
   \<and> get_success_lake_data sample_env = Inr None
   \<and> reported_balance (dashboard sample_env (logged_in alice) sample_db) = Some 80"
proof -
  have h1: "s_user_id (logged_in alice) = Some 1" by (simp add: sample_defs)
  have h2: "fetchone (\<lambda>u. u_id u = 1) (users sample_db) = Some alice"
    by (simp add: sample_defs fetchone_def)
  have h3: "get_success_lake_data sample_env = Inr None"
    by (rule sample_telemetry)
  have v: "allocation_of alice - sum_list (map amount_af (sold_listings sample_db 1))
             + sum_list (map amount_af (purchased_listings sample_db 1)) = 80"
    by (simp add: sample_defs allocation_of_def sold_listings_def purchased_listings_def)
  show ?thesis using dashboard_balance_formula [OF h1 h2 h3] h1 h2 h3 v by simp
qed

text \<open>
  C1 as stated fails: with allocation 100, 30 acre-feet sold and 10 purchased, the
  dashboard reports 80, where allocation minus sold minus purchased is 60.
\<close>

theorem dashboard_balance_counterexample:
  "reported_balance (dashboard sample_env (logged_in alice) sample_db) = Some 80
   \<and> spec_effective_balance sample_db alice = 60
   \<and> reported_balance (dashboard sample_env (logged_in alice) sample_db)
       \<noteq> Some (spec_effective_balance sample_db alice)"
proof -
  have r: "account_retrieve sample_env ''acct_alice'' = Inr True"
    by (simp add: sample_env_def)
  show ?thesis
    by (simp add: sample_db_def alice_def bob_def carol_def lease_def logged_in_def
        dashboard_def reported_balance_def reply_def Let_def total_sold_def
        total_purchased_def sql_sum_def allocation_of_def sold_listings_def
        purchased_listings_def spec_effective_balance_def fetchone_def sample_telemetry r)
qed

subsection \<open>The guards of purchase\<close>

text \<open>
  C5. When the logged-in buyer is the seller of the listing, \<open>purchase\<close> flashes an error,
  redirects to the marketplace and creates no checkout session.
\<close>

theorem purchase_rejects_self_purchase:
  assumes "s_user_id sess = Some buyer_id"
    and "fetchone (\<lambda>l. l_id l = listing_id) (listings d) = Some l"
    and "seller_id l = buyer_id"
  shows "purchase env sess d listing_id =
           reply d [(''You cannot purchase your own listing.'', ''error'')]
             (Inr (Redirect ''/marketplace''))
         \<and> checkouts (purchase env sess d listing_id) = []"
  using assms by (simp add: purchase_def reply_def Let_def)

theorem purchase_rejects_self_purchase_witness:
  "s_user_id (logged_in alice) = Some 1
   \<and> fetchone (\<lambda>l. l_id l = 12) (listings sample_db) = Some (lease 12 1 (5 / 2) 100 ''active'')
   \<and> seller_id (lease 12 1 (5 / 2) 100 ''active'') = 1
   \<and> purchase sample_env (logged_in alice) sample_db 12 =
       reply sample_db [(''You cannot purchase your own listing.'', ''error'')]
         (Inr (Redirect ''/marketplace''))
   \<and> checkouts (purchase sample_env (logged_in alice) sample_db 12) = []"
proof -
  have h1: "s_user_id (logged_in alice) = Some 1" by (simp add: sample_defs)
  have h2: "fetchone (\<lambda>l. l_id l = 12) (listings sample_db)
              = Some (lease 12 1 (5 / 2) 100 ''active'')"
    by (simp add: sample_defs fetchone_def)
  have h3: "seller_id (lease 12 1 (5 / 2) 100 ''active'') = 1" by (simp add: sample_defs)
  show ?thesis
    using purchase_rejects_self_purchase [OF h1 h2 h3, where env = sample_env] h1 h2 h3
    by (simp add: reply_def)
qed

text \<open>
  C6. When the seller of the listing has no activated payment account (no linked account
  id, or the platform, asked now, does not report the charge capability), \<open>purchase\<close>
  answers with one flashed error and a redirect, leaves the store alone and never calls
  the checkout-session API, whoever the caller is.
\<close>

theorem purchase_rejects_unactivated_seller:
  assumes "fetchone (\<lambda>l. l_id l = listing_id) (listings d) = Some l"
    and "fetchone (\<lambda>u. u_id u = seller_id l) (users d) = Some seller"
    and "\<not> activated env seller"
  shows "checkouts (purchase env sess d listing_id) = []
         \<and> store (purchase env sess d listing_id) = d
         \<and> (\<exists>msg target. flashes (purchase env sess d listing_id) = [(msg, ''error'')]
               \<and> response (purchase env sess d listing_id) = Inr (Redirect target))"
  using assms
  by (auto simp add: purchase_def reply_def Let_def activated_def
      split: option.splits sum.splits)

theorem purchase_rejects_unactivated_seller_witness:
  "fetchone (\<lambda>l. l_id l = 13) (listings sample_db) = Some (lease 13 3 4 50 ''active'')
   \<and> fetchone (\<lambda>u. u_id u = seller_id (lease 13 3 4 50 ''active'')) (users sample_db) = Some carol
   \<and> \<not> activated sample_env carol
   \<and> checkouts (purchase sample_env (logged_in bob) sample_db 13) = []
   \<and> store (purchase sample_env (logged_in bob) sample_db 13) = sample_db"
proof -
  have h1: "fetchone (\<lambda>l. l_id l = 13) (listings sample_db) = Some (lease 13 3 4 50 ''active'')"
    by (simp add: sample_defs fetchone_def)
  have h2: "fetchone (\<lambda>u. u_id u = seller_id (lease 13 3 4 50 ''active'')) (users sample_db)
              = Some carol"
    by (simp add: sample_defs fetchone_def)
  have h3: "\<not> activated sample_env carol" by (simp add: sample_defs activated_def)
  show ?thesis
    using purchase_rejects_unactivated_seller [OF h1 h2 h3, where sess = "logged_in bob"]
      h1 h2 h3
    by simp
qed

text \<open>
  C10. For a logged-in caller and a listing id that matches no listing, \<open>purchase\<close> gets
  past the self-purchase guard, subscripts the missing row and ends with an unhandled
  \<open>TypeError\<close>: no message is flashed and there is no redirect.
\<close>

theorem purchase_missing_listing_raises:
  assumes "s_user_id sess = Some buyer_id"
    and "fetchone (\<lambda>l. l_id l = listing_id) (listings d) = None"
  shows "purchase env sess d listing_id = reply d [] (Inl TypeError)
         \<and> response (purchase env sess d listing_id) = Inl TypeError
         \<and> flashes (purchase env sess d listing_id) = []"
  using assms by (simp add: purchase_def reply_def Let_def)

theorem purchase_missing_listing_raises_witness:
  "s_user_id (logged_in bob) = Some 2
   \<and> fetchone (\<lambda>l. l_id l = 99) (listings sample_db) = None
   \<and> response (purchase sample_env (logged_in bob) sample_db 99) = Inl TypeError
   \<and> flashes (purchase sample_env (logged_in bob) sample_db 99) = []"
proof -
  have h1: "s_user_id (logged_in bob) = Some 2" by (simp add: sample_defs)
  have h2: "fetchone (\<lambda>l. l_id l = 99) (listings sample_db) = None"
    by (simp add: sample_defs fetchone_def)
  show ?thesis
    using purchase_missing_listing_raises [OF h1 h2, where env = sample_env] h1 h2
    by (simp add: reply_def)
qed

subsection \<open>The price computation\<close>

text \<open>
  The rounding agrees with the binary64 values of the literals: \<open>0.035\<close> is
  \<open>0x1.1eb851eb851ecp-5\<close>, \<open>0.1\<close> is \<open>0x1.999999999999ap-4\<close>, and \<open>0.1 * 3\<close>, a tie,
  rounds to even.
\<close>

lemma to_double_literals:
  "to_double (35 / 1000) = Fin (1261007895663739 / 2 ^ 55)"
  "to_double (1 / 10) = Fin (3602879701896397 / 2 ^ 55)"
  "dmul (to_double (1 / 10)) (to_double 3) = Fin (5404319552844596 / 2 ^ 54)"
  by code_simp+

lemma price_computation_example:
  assumes "price_per_af l = 100" and "amount_af l = 5 / 2"
  shows "price_computation l = Inr (25000, 875)"
proof -
  have a: "dmul (dmul (to_double 100) (to_double (5 / 2))) (to_double 100) = Fin 25000"
    by code_simp
  have b: "double_of_int 25000 = Inr (Fin 25000)"
    by code_simp
  have c: "dmul (Fin 25000) (to_double (35 / 1000)) = Fin (7696581394432001 / 2 ^ 43)"
    by code_simp
  have t1: "trunc 25000 = 25000" by (simp add: trunc_def)
  have t2: "trunc (7696581394432001 / 2 ^ 43) = 875"
    by code_simp
  show ?thesis
    by (simp only: price_computation_def assms a b c t1 t2 int_of_double.simps sum.case)
qed

lemma purchase_creates_checkout:
  assumes "s_user_id sess = Some buyer_id"
    and "fetchone (\<lambda>l. l_id l = listing_id) (listings d) = Some l"
    and "seller_id l \<noteq> buyer_id"
    and "fetchone (\<lambda>u. u_id u = seller_id l) (users d) = Some seller"
    and "activated env seller"
    and "price_computation l = Inr (total_price, application_fee)"
  shows "map unit_amount (checkouts (purchase env sess d listing_id)) = [total_price]
         \<and> map application_fee_amount (checkouts (purchase env sess d listing_id))
             = [application_fee]"
  using assms
  by (auto simp add: purchase_def reply_def Let_def activated_def
      split: option.splits sum.splits)

text \<open>
  C7. For unit price 100.00 and quantity 2.5 the price computation of \<open>purchase\<close> gives a
  total of 25000 minor units and an application fee of 875 minor units, and these are the
  amounts of the checkout session that \<open>purchase\<close> asks for.
\<close>

theorem purchase_price_example:
  assumes "s_user_id sess = Some buyer_id"
    and "fetchone (\<lambda>l. l_id l = listing_id) (listings d) = Some l"
    and "seller_id l \<noteq> buyer_id"
    and "fetchone (\<lambda>u. u_id u = seller_id l) (users d) = Some seller"
    and "activated env seller"
    and "price_per_af l = 100" and "amount_af l = 5 / 2"
  shows "price_computation l = Inr (25000, 875)
         \<and> map unit_amount (checkouts (purchase env sess d listing_id)) = [25000]
         \<and> map application_fee_amount (checkouts (purchase env sess d listing_id)) = [875]"
  using purchase_creates_checkout [OF assms(1-5) price_computation_example [OF assms(6,7)]]
    price_computation_example [OF assms(6,7)]
  by simp

theorem purchase_price_example_witness:
  "s_user_id (logged_in bob) = Some 2
   \<and> fetchone (\<lambda>l. l_id l = 12) (listings sample_db) = Some (lease 12 1 (5 / 2) 100 ''active'')
   \<and> seller_id (lease 12 1 (5 / 2) 100 ''active'') \<noteq> 2
   \<and> fetchone (\<lambda>u. u_id u = seller_id (lease 12 1 (5 / 2) 100 ''active'')) (users sample_db)
       = Some alice
   \<and> activated sample_env alice
   \<and> price_per_af (lease 12 1 (5 / 2) 100 ''active'') = 100
   \<and> amount_af (lease 12 1 (5 / 2) 100 ''active'') = 5 / 2
   \<and> map unit_amount (checkouts (purchase sample_env (logged_in bob) sample_db 12)) = [25000]
   \<and> map application_fee_amount (checkouts (purchase sample_env (logged_in bob) sample_db 12))
       = [875]"
proof -
  have h1: "s_user_id (logged_in bob) = Some 2" by (simp add: sample_defs)
  have h2: "fetchone (\<lambda>l. l_id l = 12) (listings sample_db)
              = Some (lease 12 1 (5 / 2) 100 ''active'')"
    by (simp add: sample_defs fetchone_def)
  have h3: "seller_id (lease 12 1 (5 / 2) 100 ''active'') \<noteq> 2" by (simp add: sample_defs)
  have h4: "fetchone (\<lambda>u. u_id u = seller_id (lease 12 1 (5 / 2) 100 ''active''))
              (users sample_db) = Some alice"
    by (simp add: sample_defs fetchone_def)
  have h5: "activated sample_env alice" by (simp add: sample_defs activated_def)
  have h6: "price_per_af (lease 12 1 (5 / 2) 100 ''active'') = 100" by (simp add: sample_defs)
  have h7: "amount_af (lease 12 1 (5 / 2) 100 ''active'') = 5 / 2" by (simp add: sample_defs)
  show ?thesis
    using purchase_price_example [OF h1 h2 h3 h4 h5 h6 h7] h1 h2 h3 h4 h5 h6 h7 by simp
qed

subsection \<open>Settlement\<close>

lemma purchase_success_store:
  "store (purchase_success env d lid bid) =
     (case fetchone (\<lambda>l. l_id l = lid) (listings d) of None \<Rightarrow> d | Some l \<Rightarrow> settle d lid bid)"
  by (simp add: purchase_success_def reply_def Let_def split: option.splits sum.splits prod.splits)

lemma find_mark_sold:
  "List.find (\<lambda>l. l_id l = lid) (map (\<lambda>l. if l_id l = lid then l\<lparr>status := s\<rparr> else l) xs)
     = map_option (\<lambda>l. l\<lparr>status := s\<rparr>) (List.find (\<lambda>l. l_id l = lid) xs)"
  by (induction xs) auto

lemma fetchone_settle:
  "fetchone (\<lambda>l. l_id l = lid) (listings (settle d lid bid))
     = map_option (\<lambda>l. l\<lparr>status := ''sold''\<rparr>) (fetchone (\<lambda>l. l_id l = lid) (listings d))"
  by (simp add: settle_def fetchone_def find_mark_sold)

lemma settle_listings_idem:
  "listings (settle (settle d lid bid) lid bid') = listings (settle d lid bid)"
  by (simp add: settle_def)

lemma mark_sold_all:
  "list_all (\<lambda>x. status x = s)
     (filter (\<lambda>x. l_id x = lid) (map (\<lambda>l. if l_id l = lid then l\<lparr>status := s\<rparr> else l) xs))"
  by (induction xs) simp_all

lemma settle_sold:
  "list_all (\<lambda>x. status x = ''sold'') (filter (\<lambda>x. l_id x = lid) (listings (settle d lid bid)))"
  by (simp add: settle_def mark_sold_all)

lemma settle_offers:
  "offers (settle d lid bid) =
     offers d @ [\<lparr>o_listing_id = lid, o_buyer_id = bid, o_status = ''accepted''\<rparr>]"
  by (simp add: settle_def)

lemma settle_users: "users (settle d lid bid) = users d"
  by (simp add: settle_def)

text \<open>
  C2 (as the code has it). For an existing listing, invoking the settlement callback a
  second time leaves the listings as the first invocation left them, every row with that
  id having status \<open>sold\<close>; but every invocation appends an accepted offer row, so
  after two invocations the ledger holds two more accepted rows for the listing than
  before.
\<close>

theorem settlement_twice:
  assumes "fetchone (\<lambda>l. l_id l = listing_id) (listings d) = Some l"
  shows "listings (store (purchase_success_twice env d listing_id buyer_id))
           = listings (store (purchase_success env d listing_id buyer_id))
         \<and> list_all (\<lambda>x. status x = ''sold'')
             (filter (\<lambda>x. l_id x = listing_id)
                (listings (store (purchase_success env d listing_id buyer_id))))
         \<and> offers (store (purchase_success env d listing_id buyer_id))
             = offers d @ [\<lparr>o_listing_id = listing_id, o_buyer_id = buyer_id,
                             o_status = ''accepted''\<rparr>]
         \<and> offers (store (purchase_success_twice env d listing_id buyer_id))
             = offers d @ [\<lparr>o_listing_id = listing_id, o_buyer_id = buyer_id,
                             o_status = ''accepted''\<rparr>,
                           \<lparr>o_listing_id = listing_id, o_buyer_id = buyer_id,
                             o_status = ''accepted''\<rparr>]
         \<and> length (accepted_rows (store (purchase_success_twice env d listing_id buyer_id))
                     listing_id)
             = length (accepted_rows d listing_id) + 2"
proof -
  have once: "store (purchase_success env d listing_id buyer_id) = settle d listing_id buyer_id"
    using assms by (simp add: purchase_success_store)
  have again: "fetchone (\<lambda>l. l_id l = listing_id) (listings (settle d listing_id buyer_id))
                 = Some (l\<lparr>status := ''sold''\<rparr>)"
    using assms by (simp add: fetchone_settle)
  have twice: "store (purchase_success_twice env d listing_id buyer_id)
                 = settle (settle d listing_id buyer_id) listing_id buyer_id"
    unfolding purchase_success_twice_def once using again by (simp add: purchase_success_store)
  show ?thesis
    unfolding once twice
    by (simp add: settle_listings_idem settle_sold settle_offers accepted_rows_def)
qed

theorem settlement_twice_witness:
  "fetchone (\<lambda>l. l_id l = 12) (listings sample_db) = Some (lease 12 1 (5 / 2) 100 ''active'')
   \<and> length (accepted_rows sample_db 12) = 0
   \<and> length (accepted_rows (store (purchase_success_twice sample_env sample_db 12 2)) 12) = 2
   \<and> listings (store (purchase_success_twice sample_env sample_db 12 2))
       = listings (store (purchase_success sample_env sample_db 12 2))"
proof -
  have h: "fetchone (\<lambda>l. l_id l = 12) (listings sample_db)
             = Some (lease 12 1 (5 / 2) 100 ''active'')"
    by (simp add: sample_defs fetchone_def)
  have z: "length (accepted_rows sample_db 12) = 0"
    by (simp add: sample_defs accepted_rows_def)
  show ?thesis
    using settlement_twice [OF h, where env = sample_env and buyer_id = 2] h z by simp
qed

text \<open>
  C2 as stated fails: the second invocation changes the store, and two accepted offer rows
  exist for the listing afterwards.
\<close>

theorem settlement_twice_counterexample:
  "store (purchase_success_twice sample_env sample_db 12 2)
     \<noteq> store (purchase_success sample_env sample_db 12 2)
   \<and> length (accepted_rows (store (purchase_success sample_env sample_db 12 2)) 12) = 1
   \<and> length (accepted_rows (store (purchase_success_twice sample_env sample_db 12 2)) 12) = 2"
proof -
  have h: "fetchone (\<lambda>l. l_id l = 12) (listings sample_db)
             = Some (lease 12 1 (5 / 2) 100 ''active'')"
    by (simp add: sample_defs fetchone_def)
  have once: "store (purchase_success sample_env sample_db 12 2) = settle sample_db 12 2"
    using h by (simp add: purchase_success_store)
  have twice: "store (purchase_success_twice sample_env sample_db 12 2)
                 = settle (settle sample_db 12 2) 12 2"
    unfolding purchase_success_twice_def once using h
    by (simp add: purchase_success_store fetchone_settle)
  have z: "accepted_rows sample_db 12 = []"
    by (simp add: sample_defs accepted_rows_def)
  have l1: "length (accepted_rows (settle sample_db 12 2) 12) = 1"
    using z by (simp add: accepted_rows_def settle_offers)
  have l2: "length (accepted_rows (settle (settle sample_db 12 2) 12 2) 12) = 2"
    using z by (simp add: accepted_rows_def settle_offers)
  have "settle (settle sample_db 12 2) 12 2 \<noteq> settle sample_db 12 2"
    using l1 l2 by auto
  then show ?thesis unfolding once twice using l1 l2 by simp
qed

subsection \<open>The listing status\<close>

lemma find_map_status:
  "List.find (\<lambda>l. l_id l = lid) (map (\<lambda>l. l\<lparr>status := f l\<rparr>) xs)
     = map_option (\<lambda>l. l\<lparr>status := f l\<rparr>) (List.find (\<lambda>l. l_id l = lid) xs)"
  by (induction xs) auto

lemma price_computation_status: "price_computation (l\<lparr>status := s\<rparr>) = price_computation l"
  by (simp add: price_computation_def)

lemma purchase_status_blind:
  "purchase env sess (d\<lparr>listings := map (\<lambda>l. l\<lparr>status := f l\<rparr>) (listings d)\<rparr>) lid
     = (purchase env sess d lid)
         \<lparr>store := d\<lparr>listings := map (\<lambda>l. l\<lparr>status := f l\<rparr>) (listings d)\<rparr>\<rparr>"
proof (cases "s_user_id sess")
  case None
  then show ?thesis by (simp add: purchase_def reply_def)
next
  case (Some b)
  show ?thesis
  proof (cases "fetchone (\<lambda>l. l_id l = lid) (listings d)")
    case None
    with Some show ?thesis
      by (simp add: purchase_def reply_def fetchone_def find_map_status)
  next
    case (Some l)
    with \<open>s_user_id sess = Some b\<close> show ?thesis
      by (simp add: purchase_def reply_def fetchone_def find_map_status Let_def
          price_computation_status split: option.splits sum.splits prod.splits)
  qed
qed

lemma purchase_store: "store (purchase env sess d lid) = d"
  by (simp add: purchase_def reply_def Let_def split: option.splits sum.splits prod.splits)

lemma price_computation_sold_sample:
  "price_computation (lease 10 1 30 100 ''sold'') = Inr (300000, 10500)"
proof -
  have a: "dmul (dmul (to_double 100) (to_double 30)) (to_double 100) = Fin 300000"
    by code_simp
  have b: "double_of_int 300000 = Inr (Fin 300000)"
    by code_simp
  have c: "int_of_double (dmul (Fin 300000) (to_double (35 / 1000))) = Inr 10500"
    by code_simp
  have t: "trunc 300000 = 300000" by (simp add: trunc_def)
  have p: "price_per_af (lease 10 1 30 100 ''sold'') = 100"
    and q: "amount_af (lease 10 1 30 100 ''sold'') = 30"
    by (simp_all add: lease_def)
  show ?thesis
    by (simp only: price_computation_def p q a b c t int_of_double.simps sum.case)
qed

lemma create_lease_agreement_status:
  "create_lease_agreement (l\<lparr>status := s\<rparr>) seller buyer = create_lease_agreement l seller buyer"
  by (simp add: create_lease_agreement_def Let_def split: option.splits)

lemma notify_status: "notify (l\<lparr>status := s\<rparr>) seller buyer = notify l seller buyer"
  by (simp add: notify_def split: option.splits)

lemma purchase_success_status_blind:
  "purchase_success env (d\<lparr>listings := map (\<lambda>l. l\<lparr>status := f l\<rparr>) (listings d)\<rparr>) lid bid
     = (purchase_success env d lid bid)
         \<lparr>store := store (purchase_success env
                     (d\<lparr>listings := map (\<lambda>l. l\<lparr>status := f l\<rparr>) (listings d)\<rparr>) lid bid)\<rparr>"
proof (cases "fetchone (\<lambda>l. l_id l = lid) (listings d)")
  case None
  then show ?thesis
    by (simp add: purchase_success_def reply_def fetchone_def find_map_status)
next
  case (Some l)
  then show ?thesis
    by (simp add: purchase_success_def reply_def fetchone_def find_map_status Let_def
        create_lease_agreement_status notify_status
        split: option.splits sum.splits prod.splits)
qed

text \<open>
  C3 (as the code has it). Neither \<open>purchase\<close> nor the settlement callback reads the
  status of a listing. The response, the flashed messages and the checkout call of
  \<open>purchase\<close> are the same whatever status the listings carry, so a listing that is not
  active is purchased under the same conditions as an active one, and \<open>purchase\<close> never
  changes the store. The settlement callback, for any existing listing, sets the status
  to \<open>sold\<close> and inserts an accepted offer row, whatever the status was (and changes
  nothing when the listing does not exist); its response, flashed messages, signature
  calls and mails are the same whatever status the listings carry.
\<close>

theorem status_not_consulted:
  "response (purchase env sess (d\<lparr>listings := map (\<lambda>l. l\<lparr>status := f l\<rparr>) (listings d)\<rparr>) lid)
     = response (purchase env sess d lid)
   \<and> flashes (purchase env sess (d\<lparr>listings := map (\<lambda>l. l\<lparr>status := f l\<rparr>) (listings d)\<rparr>) lid)
     = flashes (purchase env sess d lid)
   \<and> checkouts (purchase env sess (d\<lparr>listings := map (\<lambda>l. l\<lparr>status := f l\<rparr>) (listings d)\<rparr>) lid)
     = checkouts (purchase env sess d lid)
   \<and> store (purchase env sess d lid) = d
   \<and> store (purchase_success env d lid bid)
     = (case fetchone (\<lambda>l. l_id l = lid) (listings d) of
          None \<Rightarrow> d
        | Some l \<Rightarrow>
            d\<lparr>listings := map (\<lambda>x. if l_id x = lid then x\<lparr>status := ''sold''\<rparr> else x) (listings d),
              offers := offers d @
                [\<lparr>o_listing_id = lid, o_buyer_id = bid, o_status = ''accepted''\<rparr>]\<rparr>)
   \<and> response (purchase_success env
         (d\<lparr>listings := map (\<lambda>l. l\<lparr>status := f l\<rparr>) (listings d)\<rparr>) lid bid)
     = response (purchase_success env d lid bid)
   \<and> flashes (purchase_success env
         (d\<lparr>listings := map (\<lambda>l. l\<lparr>status := f l\<rparr>) (listings d)\<rparr>) lid bid)
     = flashes (purchase_success env d lid bid)
   \<and> signatures (purchase_success env
         (d\<lparr>listings := map (\<lambda>l. l\<lparr>status := f l\<rparr>) (listings d)\<rparr>) lid bid)
     = signatures (purchase_success env d lid bid)
   \<and> mails (purchase_success env
         (d\<lparr>listings := map (\<lambda>l. l\<lparr>status := f l\<rparr>) (listings d)\<rparr>) lid bid)
     = mails (purchase_success env d lid bid)"
proof -
  let ?d = "d\<lparr>listings := map (\<lambda>l. l\<lparr>status := f l\<rparr>) (listings d)\<rparr>"
  have p: "purchase env sess ?d lid = (purchase env sess d lid)\<lparr>store := ?d\<rparr>"
    by (rule purchase_status_blind)
  have s: "purchase_success env ?d lid bid
             = (purchase_success env d lid bid)
                 \<lparr>store := store (purchase_success env ?d lid bid)\<rparr>"
    by (rule purchase_success_status_blind)
  have r1: "response (purchase_success env ?d lid bid) = response (purchase_success env d lid bid)"
    by (subst s) simp
  have r2: "flashes (purchase_success env ?d lid bid) = flashes (purchase_success env d lid bid)"
    by (subst s) simp
  have r3: "signatures (purchase_success env ?d lid bid)
              = signatures (purchase_success env d lid bid)"
    by (subst s) simp
  have r4: "mails (purchase_success env ?d lid bid) = mails (purchase_success env d lid bid)"
    by (subst s) simp
  have st: "store (purchase_success env d lid bid)
     = (case fetchone (\<lambda>l. l_id l = lid) (listings d) of
          None \<Rightarrow> d
        | Some l \<Rightarrow>
            d\<lparr>listings := map (\<lambda>x. if l_id x = lid then x\<lparr>status := ''sold''\<rparr> else x) (listings d),
              offers := offers d @
                [\<lparr>o_listing_id = lid, o_buyer_id = bid, o_status = ''accepted''\<rparr>]\<rparr>)"
    by (simp add: purchase_success_store settle_def split: option.splits)
  show ?thesis
    using r1 r2 r3 r4 st by (simp add: p purchase_store)
qed

theorem status_not_consulted_witness:
  "response (purchase sample_env (logged_in bob)
       (sample_db\<lparr>listings := map (\<lambda>l. l\<lparr>status := ''active''\<rparr>) (listings sample_db)\<rparr>) 10)
     = Inr (Redirect ''https://checkout.example/pay'')
   \<and> response (purchase sample_env (logged_in bob) sample_db 10)
     = Inr (Redirect ''https://checkout.example/pay'')"
proof -
  have h: "fetchone (\<lambda>l. l_id l = 10) (listings sample_db) = Some (lease 10 1 30 100 ''sold'')"
    by (simp add: sample_defs fetchone_def)
  have u: "fetchone (\<lambda>u. u_id u = 1) (users sample_db) = Some alice"
    by (simp add: sample_defs fetchone_def)
  have sid: "seller_id (lease 10 1 30 100 ''sold'') = 1" by (simp add: lease_def)
  have acct: "stripe_account_id alice = Some ''acct_alice''" by (simp add: alice_def)
  have ret: "account_retrieve sample_env ''acct_alice'' = Inr True"
    by (simp add: sample_env_def)
  have co: "\<And>p. checkout_create sample_env p = Inr ''https://checkout.example/pay''"
    by (simp add: sample_env_def)
  have b: "s_user_id (logged_in bob) = Some 2" by (simp add: logged_in_def bob_def)
  have r: "response (purchase sample_env (logged_in bob) sample_db 10)
             = Inr (Redirect ''https://checkout.example/pay'')"
    by (simp add: purchase_def reply_def Let_def b h u sid acct ret co
        price_computation_sold_sample)
  show ?thesis
    using status_not_consulted [where env = sample_env and sess = "logged_in bob"
        and d = sample_db and lid = 10 and f = "\<lambda>l. ''active''" and bid = 3] r
    by simp
qed

text \<open>
  C3 as stated fails: listing 10 is already sold, yet \<open>purchase\<close> creates a checkout
  session for it and the settlement callback inserts another offer row.
\<close>

theorem status_not_consulted_counterexample:
  "fetchone (\<lambda>l. l_id l = 10) (listings sample_db) = Some (lease 10 1 30 100 ''sold'')
   \<and> status (lease 10 1 30 100 ''sold'') \<noteq> ''active''
   \<and> response (purchase sample_env (logged_in bob) sample_db 10)
       = Inr (Redirect ''https://checkout.example/pay'')
   \<and> map unit_amount (checkouts (purchase sample_env (logged_in bob) sample_db 10)) = [300000]
   \<and> offers (store (purchase_success sample_env sample_db 10 3))
       = offers sample_db @ [\<lparr>o_listing_id = 10, o_buyer_id = 3, o_status = ''accepted''\<rparr>]"
proof -
  have h: "fetchone (\<lambda>l. l_id l = 10) (listings sample_db) = Some (lease 10 1 30 100 ''sold'')"
    by (simp add: sample_defs fetchone_def)
  have s: "status (lease 10 1 30 100 ''sold'') \<noteq> ''active''"
    by (simp add: lease_def)
  have u: "fetchone (\<lambda>u. u_id u = 1) (users sample_db) = Some alice"
    by (simp add: sample_defs fetchone_def)
  have sid: "seller_id (lease 10 1 30 100 ''sold'') = 1" by (simp add: lease_def)
  have acct: "stripe_account_id alice = Some ''acct_alice''" by (simp add: alice_def)
  have ret: "account_retrieve sample_env ''acct_alice'' = Inr True"
    by (simp add: sample_env_def)
  have co: "\<And>p. checkout_create sample_env p = Inr ''https://checkout.example/pay''"
    by (simp add: sample_env_def)
  have b: "s_user_id (logged_in bob) = Some 2" by (simp add: logged_in_def bob_def)
  have r: "response (purchase sample_env (logged_in bob) sample_db 10)
             = Inr (Redirect ''https://checkout.example/pay'')"
    and c: "map unit_amount (checkouts (purchase sample_env (logged_in bob) sample_db 10))
             = [300000]"
    by (simp_all add: purchase_def reply_def Let_def b h u sid acct ret co
        price_computation_sold_sample)
  have o: "offers (store (purchase_success sample_env sample_db 10 3))
             = offers sample_db @ [\<lparr>o_listing_id = 10, o_buyer_id = 3, o_status = ''accepted''\<rparr>]"
    using h by (simp add: purchase_success_store settle_offers)
  show ?thesis using h s r c o by simp
qed

subsection \<open>The lease document and its dispatch\<close>

lemma create_lease_agreement_result:
  "create_lease_agreement listing seller buyer = Inr None
   \<or> create_lease_agreement listing seller buyer = Inl TypeError"
  by (simp add: create_lease_agreement_def Let_def split: option.splits)

lemma send_for_signature_null: "send_for_signature env None seller buyer = (Inr False, [])"
  by (simp add: send_for_signature_def truthy_def)

lemma lease_handle_is_null:
  "create_lease_agreement listing (Some s) (Some b) = Inr None
   \<and> create_lease_agreement listing seller buyer \<noteq> Inr (Some h)
   \<and> send_for_signature env None seller buyer = (Inr False, [])
   \<and> signatures (purchase_success env d lid bid) = []"
proof -
  have a: "create_lease_agreement listing (Some s) (Some b) = Inr None"
    by (simp add: create_lease_agreement_def Let_def)
  have n: "create_lease_agreement listing seller buyer \<noteq> Inr (Some h)"
    using create_lease_agreement_result [of listing seller buyer] by auto
  have c: "signatures (purchase_success env d lid bid) = []"
  proof (cases "fetchone (\<lambda>l. l_id l = lid) (listings d)")
    case None
    then show ?thesis by (simp add: purchase_success_def reply_def)
  next
    case (Some l)
    show ?thesis
      using create_lease_agreement_result
        [of l "fetchone (\<lambda>u. u_id u = seller_id l) (users d)" "fetchone (\<lambda>u. u_id u = bid) (users d)"]
      by (auto simp add: purchase_success_def Some reply_def Let_def send_for_signature_null
          split: sum.splits)
  qed
  show ?thesis using a n c by (simp add: send_for_signature_null)
qed

text \<open>
  C4 (what the code does). For the sample listing 12, its seller and a buyer,
  \<open>create_lease_agreement\<close> returns the null handle and \<open>send_for_signature\<close>, given that
  handle, returns \<open>False\<close> without a call to the provider; the settlement callback makes no
  signature call, and still flashes that the agreement has been sent for signature.
\<close>

theorem lease_handle_null_at_sample:
  "create_lease_agreement (lease 12 1 (5 / 2) 100 ''active'') (Some alice) (Some bob) = Inr None
   \<and> send_for_signature sample_env None (Some alice) (Some bob) = (Inr False, [])
   \<and> signatures (purchase_success sample_env sample_db 12 2) = []
   \<and> flashes (purchase_success sample_env sample_db 12 2)
       = [(''Purchase successful! The lease agreement has been sent to both parties for signature.'',
           ''success'')]"
proof -
  have l: "fetchone (\<lambda>l. l_id l = 12) (listings sample_db)
             = Some (lease 12 1 (5 / 2) 100 ''active'')"
    by (simp add: sample_defs fetchone_def)
  have sid: "seller_id (lease 12 1 (5 / 2) 100 ''active'') = 1" by (simp add: lease_def)
  have u1: "fetchone (\<lambda>u. u_id u = 1) (users sample_db) = Some alice"
    by (simp add: sample_defs fetchone_def)
  have u2: "fetchone (\<lambda>u. u_id u = 2) (users sample_db) = Some bob"
    by (simp add: sample_defs fetchone_def)
  have f: "flashes (purchase_success sample_env sample_db 12 2)
       = [(''Purchase successful! The lease agreement has been sent to both parties for signature.'',
           ''success'')]"
    by (simp add: purchase_success_def l sid u1 u2 Let_def reply_def notify_def
        send_for_signature_null lease_handle_is_null)
  show ?thesis using f by (simp add: lease_handle_is_null)
qed

subsection \<open>Telemetry\<close>

lemma telemetry_last_object:
  "get_success_lake_data (env\<lparr>cdec_get := Inr (JArr (xs @ [JObj kvs]))\<rparr>)
     = (case checked_int (dict_get kvs ''value'') of
          Inl e \<Rightarrow> Inl e
        | Inr None \<Rightarrow> Inr None
        | Inr (Some n) \<Rightarrow> Inr (Some \<lparr>li_date = dict_get kvs ''date'', li_value = n\<rparr>))"
  by (simp add: get_success_lake_data_def split: sum.splits option.splits)

text \<open>
  C9 (as the code has it). When the upstream call raises a request exception (a timeout
  among them) or the series is empty, the telemetry fetch returns nothing and raises
  nothing. On a series whose last item is an object it looks at that item only: when the
  item's value is an integer above the sentinel -9999 it returns the item's date with
  that value, when it is a finite float above the sentinel the date with the value
  truncated towards zero, and nothing when the value is at or below the sentinel, null or
  missing, whatever the earlier items are.
\<close>

theorem telemetry_reads_last_item:
  "get_success_lake_data (env\<lparr>cdec_get := Inl RequestException\<rparr>) = Inr None
   \<and> get_success_lake_data (env\<lparr>cdec_get := Inr (JArr [])\<rparr>) = Inr None
   \<and> (map_of (rev kvs) ''value'' = Some (JInt i) \<longrightarrow>
        get_success_lake_data (env\<lparr>cdec_get := Inr (JArr (xs @ [JObj kvs]))\<rparr>)
          = Inr (if - 9999 < i
                 then Some \<lparr>li_date = (case map_of (rev kvs) ''date'' of
                                          None \<Rightarrow> JNull | Some dt \<Rightarrow> dt),
                             li_value = i\<rparr>
                 else None))
   \<and> (map_of (rev kvs) ''value'' = Some (JFloat (Fin q)) \<longrightarrow>
        get_success_lake_data (env\<lparr>cdec_get := Inr (JArr (xs @ [JObj kvs]))\<rparr>)
          = Inr (if - 9999 < q
                 then Some \<lparr>li_date = (case map_of (rev kvs) ''date'' of
                                          None \<Rightarrow> JNull | Some dt \<Rightarrow> dt),
                             li_value = (if 0 \<le> q then \<lfloor>q\<rfloor> else \<lceil>q\<rceil>)\<rparr>
                 else None))
   \<and> (map_of (rev kvs) ''value'' = None \<or> map_of (rev kvs) ''value'' = Some JNull \<longrightarrow>
        get_success_lake_data (env\<lparr>cdec_get := Inr (JArr (xs @ [JObj kvs]))\<rparr>) = Inr None)"
  by (auto simp add: telemetry_last_object dict_get_def trunc_def get_success_lake_data_def)

theorem telemetry_reads_last_item_witness:
  "get_success_lake_data (sample_env\<lparr>cdec_get := Inl RequestException\<rparr>) = Inr None
   \<and> get_success_lake_data (sample_env\<lparr>cdec_get := Inr (JArr [])\<rparr>) = Inr None
   \<and> get_success_lake_data
        (sample_env\<lparr>cdec_get := Inr (JArr ([JObj [(''date'', JStr ''d1''), (''value'', JInt 61250)]]
                                          @ [JObj [(''date'', JStr ''d2''), (''value'', JInt (- 9999))]]))\<rparr>)
       = Inr None
   \<and> get_success_lake_data
        (sample_env\<lparr>cdec_get := Inr (JArr ([JObj [(''date'', JStr ''d1''), (''value'', JInt (- 9999))]]
                                          @ [JObj [(''date'', JStr ''d2''), (''value'', JInt 61250)]]))\<rparr>)
       = Inr (Some \<lparr>li_date = JStr ''d2'', li_value = 61250\<rparr>)
   \<and> get_success_lake_data
        (sample_env\<lparr>cdec_get := Inr (JArr ([] @ [JObj [(''value'', JFloat (Fin (- 3 / 2)))]]))\<rparr>)
       = Inr (Some \<lparr>li_date = JNull, li_value = - 1\<rparr>)
   \<and> get_success_lake_data
        (sample_env\<lparr>cdec_get := Inr (JArr ([JObj [(''date'', JStr ''d1''), (''value'', JInt 61250)]]
                                          @ [JObj [(''date'', JStr ''d2''), (''value'', JNull)]]))\<rparr>)
       = Inr None"
proof -
  have a: "map_of (rev [(''date'', JStr ''d2''), (''value'', JInt (- 9999))]) ''value''
             = Some (JInt (- 9999))" by simp
  have b: "map_of (rev [(''date'', JStr ''d2''), (''value'', JInt 61250)]) ''value''
             = Some (JInt 61250)" by simp
  have c: "map_of (rev [(''value'', JFloat (Fin (- 3 / 2)))]) ''value''
             = Some (JFloat (Fin (- 3 / 2)))" by simp
  have d: "map_of (rev [(''date'', JStr ''d2''), (''value'', JNull)]) ''value'' = Some JNull"
    by simp
  have e: "\<lceil>- (3 / 2) :: rat\<rceil> = - 1"
    by (rule ceiling_unique) simp_all
  show ?thesis
    using telemetry_reads_last_item
        [of sample_env "[(''date'', JStr ''d2''), (''value'', JInt (- 9999))]" "- 9999"
          "[JObj [(''date'', JStr ''d1''), (''value'', JInt 61250)]]"]
      telemetry_reads_last_item
        [of sample_env "[(''date'', JStr ''d2''), (''value'', JInt 61250)]" 61250
          "[JObj [(''date'', JStr ''d1''), (''value'', JInt (- 9999))]]"]
      telemetry_reads_last_item
        [of sample_env "[(''value'', JFloat (Fin (- 3 / 2)))]" _ "[]" "- 3 / 2"]
      telemetry_reads_last_item
        [of sample_env "[(''date'', JStr ''d2''), (''value'', JNull)]" _
          "[JObj [(''date'', JStr ''d1''), (''value'', JInt 61250)]]"]
      a b c d e
    by simp
qed

text \<open>
  C9 as stated fails: in the sample series the latest reading is the sentinel and the one
  before it is valid; filtering the sentinel out leaves that reading as the latest valid
  one, and the fetch returns nothing.
\<close>

theorem telemetry_latest_valid_counterexample:
  "cdec_get sample_env = Inr (JArr (map reading_json sample_series))
   \<and> spec_latest_valid_reading sample_series = Some (''2024-5-1 00:00'', 61250)
   \<and> get_success_lake_data sample_env = Inr None"
  by (simp add: sample_telemetry)
     (simp add: sample_env_def sample_series_def spec_latest_valid_reading_def)

text \<open>
  Exceptions other than the request exception are not caught: a positive infinity as the
  last value, a value that is a string, or a last item that is not an object.
\<close>

lemma telemetry_uncaught_errors:
  "get_success_lake_data
     (env\<lparr>cdec_get := Inr (JArr (xs @ [JObj [(''value'', JFloat (Infinite False))]]))\<rparr>)
     = Inl OverflowError"
  "get_success_lake_data (env\<lparr>cdec_get := Inr (JArr (xs @ [JObj [(''value'', JStr t)]]))\<rparr>)
     = Inl TypeError"
  "get_success_lake_data (env\<lparr>cdec_get := Inr (JArr (xs @ [JInt n]))\<rparr>) = Inl AttributeError"
  by (simp_all add: get_success_lake_data_def dict_get_def)

subsection \<open>Editing and deleting listings\<close>

lemma fetchone_None_iff: "fetchone p xs = None \<longleftrightarrow> \<not> list_ex p xs"
  by (auto simp add: fetchone_def find_None_iff list_ex_iff)

lemma filter_not_owned:
  "\<not> list_ex p xs \<Longrightarrow> filter (\<lambda>x. \<not> p x) xs = xs"
  by (simp add: list_ex_iff)

lemma edit_listing_not_found:
  assumes "s_user_id sess = Some uid"
    and "\<not> list_ex (\<lambda>l. l_id l = lid \<and> seller_id l = uid) (listings d)"
  shows "edit_listing env sess d lid m form =
           reply d [(''Listing not found or you do not have permission to edit it.'', ''error'')]
             (Inr (Redirect ''/dashboard''))"
proof -
  have "fetchone (\<lambda>l. l_id l = lid \<and> seller_id l = uid) (listings d) = None"
    using assms(2) by (simp add: fetchone_None_iff)
  with assms(1) show ?thesis by (simp add: edit_listing_def)
qed

lemma delete_listing_no_match:
  assumes "s_user_id sess = Some uid"
    and "\<not> list_ex (\<lambda>l. l_id l = lid \<and> seller_id l = uid) (listings d)"
  shows "delete_listing sess d lid =
           reply d [(''Your listing has been deleted.'', ''success'')]
             (Inr (Redirect ''/dashboard''))"
  using assms(1) filter_not_owned [OF assms(2)] by (simp add: delete_listing_def)

lemma list_ex_weaken:
  "\<not> list_ex (\<lambda>l. l_id l = lid) xs \<Longrightarrow> \<not> list_ex (\<lambda>l. l_id l = lid \<and> seller_id l = uid) xs"
  by (auto simp: list_ex_iff)

text \<open>
  C8. For a logged-in caller, editing or deleting a listing that exists but is not the
  caller's gives the same response and the same flashed message as on an id that matches
  no listing at all: for edit the "not found or no permission" error, for delete the
  "deleted" message, both with a redirect to the dashboard; the store is left as it was.
\<close>

theorem edit_delete_no_existence_leak:
  assumes "s_user_id sess = Some uid"
    and "list_ex (\<lambda>l. l_id l = lid) (listings d1)"
    and "\<not> list_ex (\<lambda>l. l_id l = lid \<and> seller_id l = uid) (listings d1)"
    and "\<not> list_ex (\<lambda>l. l_id l = lid) (listings d2)"
  shows "response (edit_listing env sess d1 lid m form)
           = response (edit_listing env sess d2 lid m form)
         \<and> flashes (edit_listing env sess d1 lid m form)
           = flashes (edit_listing env sess d2 lid m form)
         \<and> response (delete_listing sess d1 lid) = response (delete_listing sess d2 lid)
         \<and> flashes (delete_listing sess d1 lid) = flashes (delete_listing sess d2 lid)
         \<and> response (edit_listing env sess d1 lid m form) = Inr (Redirect ''/dashboard'')
         \<and> flashes (edit_listing env sess d1 lid m form)
           = [(''Listing not found or you do not have permission to edit it.'', ''error'')]
         \<and> response (delete_listing sess d1 lid) = Inr (Redirect ''/dashboard'')
         \<and> flashes (delete_listing sess d1 lid) = [(''Your listing has been deleted.'', ''success'')]
         \<and> store (edit_listing env sess d1 lid m form) = d1
         \<and> store (delete_listing sess d1 lid) = d1"
  using edit_listing_not_found [OF assms(1,3), of env m form]
    edit_listing_not_found [OF assms(1) list_ex_weaken [OF assms(4)], of env m form]
    delete_listing_no_match [OF assms(1,3)]
    delete_listing_no_match [OF assms(1) list_ex_weaken [OF assms(4)]]
  by (simp add: reply_def)

theorem edit_delete_no_existence_leak_witness:
  "s_user_id (logged_in bob) = Some 2
   \<and> list_ex (\<lambda>l. l_id l = 12) (listings sample_db)
   \<and> \<not> list_ex (\<lambda>l. l_id l = 12 \<and> seller_id l = 2) (listings sample_db)
   \<and> \<not> list_ex (\<lambda>l. l_id l = 12) (listings (sample_db\<lparr>listings := []\<rparr>))
   \<and> response (edit_listing sample_env (logged_in bob) sample_db 12 POST Map.empty)
       = response (edit_listing sample_env (logged_in bob) (sample_db\<lparr>listings := []\<rparr>) 12 POST
            Map.empty)
   \<and> flashes (delete_listing (logged_in bob) sample_db 12)
       = flashes (delete_listing (logged_in bob) (sample_db\<lparr>listings := []\<rparr>) 12)
   \<and> store (delete_listing (logged_in bob) sample_db 12) = sample_db"
proof -
  have h1: "s_user_id (logged_in bob) = Some 2" by (simp add: sample_defs)
  have h2: "list_ex (\<lambda>l. l_id l = 12) (listings sample_db)" by (simp add: sample_defs)
  have h3: "\<not> list_ex (\<lambda>l. l_id l = 12 \<and> seller_id l = 2) (listings sample_db)"
    by (simp add: sample_defs)
  have h4: "\<not> list_ex (\<lambda>l. l_id l = 12) (listings (sample_db\<lparr>listings := []\<rparr>))" by simp
  show ?thesis
    using edit_delete_no_existence_leak [OF h1 h2 h3 h4, of sample_env POST Map.empty]
      h1 h2 h3 h4
    by simp
qed

end
